theory Spec2Isabelle
  imports Complex_Main
begin

section \<open>Numbers and failures\<close>

text \<open>
  The two modules embedded here are \<^verbatim>\<open>risk_manager.py\<close> (class \<^verbatim>\<open>RiskManager\<close>) and
  \<^verbatim>\<open>strategy.py\<close> (class \<^verbatim>\<open>TradingStrategy\<close>).

  Prices, sizes and indicator values are Python floats in the source. They are modelled
  as \<^typ>\<open>real\<close>: arithmetic is exact, and the values \<^verbatim>\<open>nan\<close> and \<^verbatim>\<open>inf\<close> do not exist.
  Where the source divides by a value that can be zero without a guard, the model stops
  with \<open>DivisionByZero\<close>: on Python floats the division raises \<^verbatim>\<open>ZeroDivisionError\<close>,
  and on numpy floats (the cells of a data frame) it yields \<^verbatim>\<open>inf\<close> or \<^verbatim>\<open>nan\<close>, which lie
  outside what the real numbers describe.

  A Python exception is a value of \<open>py_error\<close>; a function that can raise returns
  \<open>py_error + 'a\<close>.
\<close>

datatype py_error =
    KeyError string   \<comment> \<open>\<^verbatim>\<open>d[k]\<close> on a dict without the key \<^verbatim>\<open>k\<close>\<close>
  | IndexError        \<comment> \<open>\<^verbatim>\<open>df.iloc[-1]\<close> on an empty frame\<close>
  | DivisionByZero    \<comment> \<open>an unguarded division by zero\<close>

text \<open>Python's two-argument \<^verbatim>\<open>max(a, b)\<close> and \<^verbatim>\<open>min(a, b)\<close>: the first argument, unless
  the second is strictly greater (smaller).\<close>

definition py_max :: "real \<Rightarrow> real \<Rightarrow> real" where
  "py_max a b = (if b > a then b else a)"

definition py_min :: "real \<Rightarrow> real \<Rightarrow> real" where
  "py_min a b = (if b < a then b else a)"

text \<open>Truthiness of an optional float, as in \<^verbatim>\<open>if position["tp1"] and ...\<close>:
  \<^verbatim>\<open>None\<close> and \<^verbatim>\<open>0.0\<close> are both false.\<close>

fun truthy :: "real option \<Rightarrow> bool" where
  "truthy None = False"
| "truthy (Some x) = (x \<noteq> 0)"


section \<open>The risk manager (\<^verbatim>\<open>risk_manager.py\<close>)\<close>

text \<open>The attributes \<^verbatim>\<open>RiskManager.__init__\<close> reads from its configuration.\<close>

record risk_manager =
  rm_sl_atr_multiplier :: real
  rm_tp1_rr :: real
  rm_tp1_percent :: real
  rm_tp2_rr :: real
  rm_tp2_percent :: real
  rm_trailing_atr_multiplier :: real
  rm_max_candles_hold :: int

text \<open>
  The position dictionary. The keys that \<^verbatim>\<open>update_position\<close> and \<^verbatim>\<open>calculate_pnl\<close>
  read with \<^verbatim>\<open>position[...]\<close> and that both \<^verbatim>\<open>create_position\<close> and the entry paths of
  \<^verbatim>\<open>gate_ma_main.py\<close> fill are plain fields. \<^verbatim>\<open>tp1\<close>, \<^verbatim>\<open>tp2\<close> and \<^verbatim>\<open>trailing_stop\<close> hold
  a float or \<^verbatim>\<open>None\<close>. The keys \<^verbatim>\<open>atr\<close> and \<^verbatim>\<open>risk_distance\<close> are filled by
  \<^verbatim>\<open>create_position\<close> only, and \<^verbatim>\<open>risk_amount\<close> by neither, so for these \<open>None\<close> means that
  the key is absent.
\<close>

record position =
  entry_price :: real
  stop_loss :: real
  position_size :: real
  side :: string
  tp1 :: "real option"
  tp1_percent :: real
  tp2 :: "real option"
  tp2_percent :: real
  trailing_stop :: "real option"
  remaining_size :: real
  pos_atr :: "real option"
  risk_distance :: "real option"
  risk_amount :: "real option"

definition calculate_position_size ::
  "real \<Rightarrow> real \<Rightarrow> real \<Rightarrow> real \<Rightarrow> real option \<Rightarrow> py_error + real" where
  "calculate_position_size equity entry stop min_size max_usdt_allocation =
     (case max_usdt_allocation of
        None \<Rightarrow> Inr min_size
      | Some m \<Rightarrow>
          if m = 0 \<or> m \<le> 0 then Inr min_size
          else if entry = 0 then Inl DivisionByZero
          else Inr (py_max (m / entry) min_size))"

definition calculate_stop_loss :: "risk_manager \<Rightarrow> real \<Rightarrow> real \<Rightarrow> string \<Rightarrow> real" where
  "calculate_stop_loss self entry atr sd =
     (let sl_distance = atr * rm_sl_atr_multiplier self
      in if sd = ''long'' then entry - sl_distance else entry + sl_distance)"

record take_profits =
  tps_tp1 :: real
  tps_tp1_percent :: real
  tps_tp2 :: real
  tps_tp2_percent :: real
  tps_risk_distance :: real

definition calculate_take_profits ::
  "risk_manager \<Rightarrow> real \<Rightarrow> real \<Rightarrow> string \<Rightarrow> take_profits" where
  "calculate_take_profits self entry stop sd =
     (let rd = \<bar>entry - stop\<bar>;
          t1 = (if sd = ''long'' then entry + rd * rm_tp1_rr self
                else entry - rd * rm_tp1_rr self);
          t2 = (if sd = ''long'' then entry + rd * rm_tp2_rr self
                else entry - rd * rm_tp2_rr self)
      in \<lparr>tps_tp1 = t1, tps_tp1_percent = rm_tp1_percent self,
          tps_tp2 = t2, tps_tp2_percent = rm_tp2_percent self,
          tps_risk_distance = rd\<rparr>)"

definition calculate_trailing_stop ::
  "risk_manager \<Rightarrow> real \<Rightarrow> real \<Rightarrow> real \<Rightarrow> string \<Rightarrow> real option \<Rightarrow> real" where
  "calculate_trailing_stop self entry current_price atr sd current_trailing_stop =
     (let trailing_distance = atr * rm_trailing_atr_multiplier self in
      if sd = ''long'' then
        (let new_trailing_stop = current_price - trailing_distance in
         case current_trailing_stop of
           None \<Rightarrow>
             if current_price > entry then py_max new_trailing_stop entry else entry
         | Some cur \<Rightarrow> py_max new_trailing_stop cur)
      else
        (let new_trailing_stop = current_price + trailing_distance in
         case current_trailing_stop of
           None \<Rightarrow>
             if current_price < entry then py_min new_trailing_stop entry else entry
         | Some cur \<Rightarrow> py_min new_trailing_stop cur))"

definition check_stop_loss_hit :: "real \<Rightarrow> real \<Rightarrow> string \<Rightarrow> bool" where
  "check_stop_loss_hit current_price stop sd =
     (if sd = ''long'' then current_price \<le> stop else current_price \<ge> stop)"

definition check_take_profit_hit :: "real \<Rightarrow> real \<Rightarrow> string \<Rightarrow> bool" where
  "check_take_profit_hit current_price take_profit sd =
     (if sd = ''long'' then current_price \<ge> take_profit else current_price \<le> take_profit)"

definition create_position ::
  "risk_manager \<Rightarrow> real \<Rightarrow> real \<Rightarrow> real \<Rightarrow> string \<Rightarrow> real \<Rightarrow> real option
     \<Rightarrow> py_error + position" where
  "create_position self entry atr equity sd min_size max_usdt_allocation =
     (let stop = calculate_stop_loss self entry atr sd in
      case calculate_position_size equity entry stop min_size max_usdt_allocation of
        Inl e \<Rightarrow> Inl e
      | Inr psize \<Rightarrow>
          (let tps = calculate_take_profits self entry stop sd in
           Inr \<lparr>entry_price = entry, stop_loss = stop, position_size = psize, side = sd,
                tp1 = Some (tps_tp1 tps), tp1_percent = tps_tp1_percent tps,
                tp2 = Some (tps_tp2 tps), tp2_percent = tps_tp2_percent tps,
                trailing_stop = None, remaining_size = psize,
                pos_atr = Some atr, risk_distance = Some (tps_risk_distance tps),
                risk_amount = None\<rparr>))"

text \<open>
  \<^verbatim>\<open>update_position\<close> mutates the dictionary it is given and returns it with the action;
  the model returns the updated record. After the stop-loss check (an early return) the
  body is three blocks in sequence, each reading the position and the action left by the
  one before: the TP1 block, the TP2 block and the trailing-stop block.
\<close>

definition update_position_tp1 ::
  "real \<Rightarrow> position \<times> string option \<Rightarrow> position \<times> string option" where
  "update_position_tp1 current_price st =
     (case st of (position, action) \<Rightarrow>
        if truthy (tp1 position) \<and> tp1_percent position > 0 then
          (if check_take_profit_hit current_price (the (tp1 position)) (side position) then
             (let close_size = position_size position * (tp1_percent position / 100) in
              (position\<lparr>remaining_size := remaining_size position - close_size,
                        tp1 := None,
                        tp1_percent := 0,
                        stop_loss := entry_price position\<rparr>,
               Some ''tp1''))
           else (position, action))
        else (position, action))"

definition update_position_tp2 ::
  "real \<Rightarrow> position \<times> string option \<Rightarrow> position \<times> string option" where
  "update_position_tp2 current_price st =
     (case st of (position, action) \<Rightarrow>
        if truthy (tp2 position) \<and> tp2_percent position > 0 then
          (if check_take_profit_hit current_price (the (tp2 position)) (side position) then
             (let close_size = position_size position * (tp2_percent position / 100) in
              (position\<lparr>remaining_size := remaining_size position - close_size,
                        tp2 := None,
                        tp2_percent := 0\<rparr>,
               if action = None then Some ''tp2'' else action))
           else (position, action))
        else (position, action))"

definition update_position_trailing ::
  "risk_manager \<Rightarrow> real \<Rightarrow> real \<Rightarrow> position \<times> string option
     \<Rightarrow> position \<times> string option" where
  "update_position_trailing self current_price atr st =
     (case st of (position, action) \<Rightarrow>
        if remaining_size position > 0 then
          (let ts = calculate_trailing_stop self (entry_price position) current_price atr
                      (side position) (trailing_stop position) in
           (position\<lparr>trailing_stop := Some ts\<rparr>,
            if check_stop_loss_hit current_price ts (side position) then
              (if action = None then Some ''trailing_stop'' else action)
            else action))
        else (position, action))"

definition update_position ::
  "risk_manager \<Rightarrow> position \<Rightarrow> real \<Rightarrow> real \<Rightarrow> position \<times> string option" where
  "update_position self position current_price atr =
     (if check_stop_loss_hit current_price (stop_loss position) (side position) then
        (position, Some ''stop_loss'')
      else
        update_position_trailing self current_price atr
          (update_position_tp2 current_price
            (update_position_tp1 current_price (position, None))))"

text \<open>The dictionary \<^verbatim>\<open>calculate_pnl\<close> returns.\<close>

record pnl_info =
  pnl :: real
  pnl_percent :: real
  rr_achieved :: real
  pnl_remaining_size :: real

definition calculate_pnl :: "position \<Rightarrow> real \<Rightarrow> py_error + pnl_info" where
  "calculate_pnl position current_price =
     (let entry = entry_price position;
          remaining = remaining_size position;
          p = (if side position = ''long'' then (current_price - entry) * remaining
               else (entry - current_price) * remaining)
      in case risk_amount position of
           None \<Rightarrow> Inl (KeyError ''risk_amount'')
         | Some ra \<Rightarrow>
             (let pp = (if ra > 0 then (p / ra) * 100 else 0);
                  risk = \<bar>entry - stop_loss position\<bar>;
                  reward = \<bar>current_price - entry\<bar>;
                  rr = (if risk > 0 then reward / risk else 0)
              in Inr \<lparr>pnl = p, pnl_percent = pp, rr_achieved = rr,
                      pnl_remaining_size = remaining\<rparr>))"

text \<open>The polling loop calls \<^verbatim>\<open>update_position\<close> once per cycle on the position the
  previous call returned; \<open>update_position_calls\<close> is that sequence of calls, one
  \<open>(current_price, atr)\<close> pair per cycle.\<close>

fun update_position_calls ::
  "risk_manager \<Rightarrow> position \<Rightarrow> (real \<times> real) list \<Rightarrow> position" where
  "update_position_calls self position [] = position"
| "update_position_calls self position ((current_price, atr) # rest) =
     update_position_calls self (fst (update_position self position current_price atr)) rest"

text \<open>The order in which a stored trailing stop can move for a long position: from
  unset to any level, and from a level to one at least as high.\<close>

fun trailing_le :: "real option \<Rightarrow> real option \<Rightarrow> bool" where
  "trailing_le None _ = True"
| "trailing_le (Some a) (Some b) = (a \<le> b)"
| "trailing_le (Some a) None = False"


section \<open>The signal evaluator (\<^verbatim>\<open>strategy.py\<close>)\<close>

text \<open>The attributes \<^verbatim>\<open>TradingStrategy.__init__\<close> reads from its configuration. The two
  entry percentages are read later, with \<^verbatim>\<open>self.config.get(key, default)\<close>: \<open>None\<close> means
  that the configuration has no such key.\<close>

record strategy =
  st_ema_short :: int
  st_ema_long :: int
  st_rsi_length :: int
  st_rsi_min :: real
  st_rsi_max :: real
  st_adx_period :: int
  st_adx_threshold :: real
  st_atr_period :: int
  st_use_volume_filter :: bool
  st_volume_ma_period :: int
  st_crossover_lookback :: int
  st_max_usdt_per_trade :: real
  st_sl_atr_multiplier :: real
  st_tp1_rr :: real
  st_tp2_rr :: real
  st_entry_1_percent :: "real option"
  st_entry_2_percent :: "real option"

text \<open>One row of the indicator-annotated data frame. The columns \<^verbatim>\<open>volume\<close> and
  \<^verbatim>\<open>volume_ma\<close> are read with \<^verbatim>\<open>latest.get(column, default)\<close>; \<open>None\<close> means that the
  frame has no such column. The frame is the list of its rows, oldest first.\<close>

record candle =
  close :: real
  ema_short :: real
  ema_long :: real
  rsi :: real
  adx :: real
  atr :: real
  volume :: "real option"
  volume_ma :: "real option"

text \<open>\<^verbatim>\<open>d.get(key, default)\<close>.\<close>

fun get_or :: "'a option \<Rightarrow> 'a \<Rightarrow> 'a" where
  "get_or None d = d"
| "get_or (Some v) d = v"

text \<open>One entry leg: the nested dictionary stored under \<^verbatim>\<open>entry_1\<close> and \<^verbatim>\<open>entry_2\<close>.\<close>

record entry_leg =
  leg_price :: real
  leg_position_size :: real
  leg_stop_loss :: real
  leg_take_profit :: real
  leg_risk_reward :: real

text \<open>
  Texts that the source builds with an f-string around a number, or that begin with a
  character outside ASCII, are constructors carrying the number:
  \<^item> \<open>Trade_analysis_not_available r\<close> is
    \<^verbatim>\<open>f"Trade analysis not available: Failed: EMA alignment, RSI ({r}), Volume"\<close>;
  \<^item> \<open>Price_moved_warning c\<close> is
    \<^verbatim>\<open>f"Price moved {c:+.2f}% since last candle. High volatility!"\<close>;
  \<^item> \<open>In_entry_zone\<close> is the check mark followed by
    \<^verbatim>\<open> In entry zone (pullback to support)\<close>;
  \<^item> \<open>Near_entry_zone\<close> is the warning sign followed by
    \<^verbatim>\<open> Near entry zone (slight premium)\<close>;
  \<^item> \<open>Above_entry_zone\<close> is the warning sign followed by
    \<^verbatim>\<open> Above entry zone (chasing risk - consider waiting)\<close>.
\<close>

datatype message =
    Trade_analysis_not_available real
  | Price_moved_warning real
  | In_entry_zone
  | Near_entry_zone
  | Above_entry_zone

text \<open>The values held by the details dictionary, and the dictionary itself.\<close>

datatype val =
    Num real
  | Bool bool
  | Str string
  | Msg message
  | Leg entry_leg

type_synonym details = "string \<rightharpoonup> val"

text \<open>One record per \<^verbatim>\<open>self.logger.info\<close> call of \<^verbatim>\<open>check_long_entry\<close>, in the order of
  the calls, with the verdict the line reports (the numbers formatted into its text are
  left out).\<close>

datatype log_record =
    Log_ema_trend bool
  | Log_rsi_range bool
  | Log_adx_strength bool
  | Log_volume bool
  | Log_volume_filter_disabled
  | Log_market_state
  | Log_entry_signal bool

definition zero_leg :: entry_leg where
  "zero_leg = \<lparr>leg_price = 0, leg_position_size = 0, leg_stop_loss = 0,
               leg_take_profit = 0, leg_risk_reward = 0\<rparr>"

definition check_long_entry ::
  "strategy \<Rightarrow> candle list \<Rightarrow> py_error + (bool \<times> details \<times> log_record list)" where
  "check_long_entry self df =
     (if int (length df) <
           max (max (max (st_ema_long self) (st_rsi_length self)) (st_atr_period self))
               (st_volume_ma_period self)
      then Inr (False, [''reason'' \<mapsto> Str ''Insufficient data''], [])
      else if df = [] then Inl IndexError
      else
       (let latest = last df;
            ema_condition = (close latest > ema_short latest \<and> ema_short latest > ema_long latest);
            rsi_condition = (st_rsi_min self \<le> rsi latest \<and> rsi latest \<le> st_rsi_max self);
            adx_condition = (adx latest \<ge> st_adx_threshold self);
            filtered = (st_use_volume_filter self \<and> volume latest \<noteq> None);
            vma = get_or (volume_ma latest) 1;
            volume_ratio = (if filtered then (if vma > 0 then get_or (volume latest) 0 / vma else 0)
                            else 0);
            volume_condition = (if filtered then get_or (volume latest) 0 \<ge> vma else True);
            entry_signal = (ema_condition \<and> rsi_condition \<and> adx_condition \<and> volume_condition);
            logged = [Log_ema_trend ema_condition, Log_rsi_range rsi_condition,
                      Log_adx_strength adx_condition,
                      (if st_use_volume_filter self then Log_volume volume_condition
                       else Log_volume_filter_disabled),
                      Log_market_state, Log_entry_signal entry_signal];
            details = [''price'' \<mapsto> Num (close latest),
                       ''ema_short'' \<mapsto> Num (ema_short latest),
                       ''ema_long'' \<mapsto> Num (ema_long latest),
                       ''rsi'' \<mapsto> Num (rsi latest),
                       ''adx'' \<mapsto> Num (adx latest),
                       ''atr'' \<mapsto> Num (atr latest),
                       ''volume'' \<mapsto> Num (get_or (volume latest) 0),
                       ''volume_ma'' \<mapsto> Num (get_or (volume_ma latest) 0),
                       ''ema_aligned'' \<mapsto> Bool ema_condition,
                       ''rsi_valid'' \<mapsto> Bool rsi_condition,
                       ''adx_valid'' \<mapsto> Bool adx_condition,
                       ''volume_valid'' \<mapsto> Bool volume_condition,
                       ''volume_ratio'' \<mapsto> Num volume_ratio,
                       ''signal'' \<mapsto> Bool entry_signal]
        in
        if entry_signal then
          (if st_max_usdt_per_trade self \<le> 0 then
             Inr (False,
                  details(''reason'' \<mapsto> Str ''MAX_USDT_PER_TRADE must be > 0 in .env file''),
                  logged)
           else if close latest = 0 then Inl DivisionByZero
           else
            (let max_position_size = st_max_usdt_per_trade self / close latest;
                 entry_1_percent = get_or (st_entry_1_percent self) 30 / 100;
                 entry_2_percent = get_or (st_entry_2_percent self) 70 / 100;
                 entry_1_price = ema_short latest;
                 entry_2_price = ema_long latest;
                 stop = ema_long latest - atr latest * st_sl_atr_multiplier self;
                 risk_1 = entry_1_price - stop;
                 risk_2 = entry_2_price - stop
             in Inr (True,
                  details(''entry_1'' \<mapsto> Leg
                            \<lparr>leg_price = entry_1_price,
                             leg_position_size = max_position_size * entry_1_percent,
                             leg_stop_loss = stop,
                             leg_take_profit = entry_1_price + risk_1 * st_tp1_rr self,
                             leg_risk_reward = st_tp1_rr self\<rparr>,
                          ''entry_2'' \<mapsto> Leg
                            \<lparr>leg_price = entry_2_price,
                             leg_position_size = max_position_size * entry_2_percent,
                             leg_stop_loss = stop,
                             leg_take_profit = entry_2_price + risk_2 * st_tp2_rr self,
                             leg_risk_reward = st_tp2_rr self\<rparr>,
                          ''reason'' \<mapsto> Str ''All entry conditions met''),
                  logged)))
        else
          Inr (False,
               details(''entry_1'' \<mapsto> Leg zero_leg,
                       ''entry_2'' \<mapsto> Leg zero_leg,
                       ''reason'' \<mapsto> Msg (Trade_analysis_not_available (rsi latest))),
               logged)))"

text \<open>\<^verbatim>\<open>recalculate_with_live_price\<close> updates the details dictionary in place and returns
  it; the model returns the updated map.\<close>

definition recalculate_with_live_price ::
  "strategy \<Rightarrow> candle list \<Rightarrow> details \<Rightarrow> real \<Rightarrow> py_error + details" where
  "recalculate_with_live_price self df details live_price =
     (if df = [] then Inl IndexError
      else
       (let latest = last df in
        if close latest = 0 then Inl DivisionByZero
        else
         (let price_change_pct = ((live_price - close latest) / close latest) * 100;
              details1 = (if \<bar>price_change_pct\<bar> > 5
                          then details(''warning'' \<mapsto> Msg (Price_moved_warning price_change_pct))
                          else details);
              es = ema_short latest;
              details2 = (if live_price < es
                          then details1(''entry_status'' \<mapsto> Msg In_entry_zone)
                          else if live_price < es * (102 / 100)
                          then details1(''entry_status'' \<mapsto> Msg Near_entry_zone)
                          else details1(''entry_status'' \<mapsto> Msg Above_entry_zone))
          in Inr (details2(''live_price'' \<mapsto> Num live_price,
                           ''last_candle_price'' \<mapsto> Num (close latest),
                           ''price_change_pct'' \<mapsto> Num price_change_pct)))))"

text \<open>Reading a key of the dictionary a call returned (\<open>None\<close> when the call raised or
  the key is absent), and the entry leg stored under a key.\<close>

definition returned_key :: "py_error + details \<Rightarrow> string \<Rightarrow> val option" where
  "returned_key r k = (case r of Inl e \<Rightarrow> None | Inr d \<Rightarrow> d k)"

definition annotation_keys :: "string set" where
  "annotation_keys =
     {''warning'', ''entry_status'', ''live_price'', ''last_candle_price'', ''price_change_pct''}"


section \<open>Auxiliary notions and concrete inputs\<close>

text \<open>A trailing stop is floored at breakeven when it is unset or not below the entry
  price.\<close>

definition trailing_floored :: "position \<Rightarrow> bool" where
  "trailing_floored p = (case trailing_stop p of None \<Rightarrow> True | Some t \<Rightarrow> entry_price p \<le> t)"

text \<open>Reading the result of \<^verbatim>\<open>check_long_entry\<close>: the signal it returned and the value
  its details hold under a key (\<open>None\<close> when the call raised, or when the key is absent).\<close>

definition signal_of :: "py_error + (bool \<times> details \<times> log_record list) \<Rightarrow> bool option" where
  "signal_of r = (case r of Inl e \<Rightarrow> None | Inr (triggered, d, logged) \<Rightarrow> Some triggered)"

definition detail_of ::
  "py_error + (bool \<times> details \<times> log_record list) \<Rightarrow> string \<Rightarrow> val option" where
  "detail_of r k = (case r of Inl e \<Rightarrow> None | Inr (triggered, d, logged) \<Rightarrow> d k)"

text \<open>A risk manager with the default settings of \<^verbatim>\<open>RiskManager.__init__\<close>.\<close>

definition example_risk_manager :: risk_manager where
  "example_risk_manager =
     \<lparr>rm_sl_atr_multiplier = 3/2, rm_tp1_rr = 1, rm_tp1_percent = 30, rm_tp2_rr = 2,
      rm_tp2_percent = 40, rm_trailing_atr_multiplier = 1, rm_max_candles_hold = 20\<rparr>"

text \<open>A long position of 10 units entered at 100 with its stop at 90, TP1 at 110 (30%)
  and TP2 at 120 (40%); it has no \<^verbatim>\<open>risk_amount\<close> key, like the positions the entry
  paths of \<^verbatim>\<open>gate_ma_main.py\<close> store.\<close>

definition example_position :: position where
  "example_position =
     \<lparr>entry_price = 100, stop_loss = 90, position_size = 10, side = ''long'',
      tp1 = Some 110, tp1_percent = 30, tp2 = Some 120, tp2_percent = 40,
      trailing_stop = None, remaining_size = 10,
      pos_atr = None, risk_distance = None, risk_amount = None\<rparr>"

text \<open>A long position whose stop lies above both of its armed targets, so that one
  price can meet the stop-loss condition and a take-profit condition at once.\<close>

definition stopped_position :: position where
  "stopped_position =
     \<lparr>entry_price = 100, stop_loss = 100, position_size = 10, side = ''long'',
      tp1 = Some 90, tp1_percent = 30, tp2 = Some 95, tp2_percent = 40,
      trailing_stop = None, remaining_size = 10,
      pos_atr = None, risk_distance = None, risk_amount = None\<rparr>"

text \<open>A long position whose TP1 level is the float \<^verbatim>\<open>0.0\<close>.\<close>

definition zero_target_position :: position where
  "zero_target_position =
     \<lparr>entry_price = 1, stop_loss = -1, position_size = 10, side = ''long'',
      tp1 = Some 0, tp1_percent = 30, tp2 = None, tp2_percent = 0,
      trailing_stop = None, remaining_size = 10,
      pos_atr = None, risk_distance = None, risk_amount = None\<rparr>"

text \<open>The position of the module's own example,
  \<^verbatim>\<open>rm.create_position(50000, 500, 1000, side="long")\<close>.\<close>

definition created_position :: position where
  "created_position =
     \<lparr>entry_price = 50000, stop_loss = 49250, position_size = 1 / 10000, side = ''long'',
      tp1 = Some 50750, tp1_percent = 30, tp2 = Some 51500, tp2_percent = 40,
      trailing_stop = None, remaining_size = 1 / 10000,
      pos_atr = Some 500, risk_distance = Some 750, risk_amount = None\<rparr>"

text \<open>The strategy settings, the latest candle and the 21-row frame of the worked example:
  close 150, short EMA 148, long EMA 145, RSI 55, ADX 30, ATR 2.5, volume 25000 against a
  volume average of 20000, an allocation of 1000 and a stop multiplier of 1.5.\<close>

definition example_strategy :: strategy where
  "example_strategy =
     \<lparr>st_ema_short = 9, st_ema_long = 21, st_rsi_length = 14, st_rsi_min = 40,
      st_rsi_max = 70, st_adx_period = 14, st_adx_threshold = 25, st_atr_period = 14,
      st_use_volume_filter = True, st_volume_ma_period = 20, st_crossover_lookback = 2,
      st_max_usdt_per_trade = 1000, st_sl_atr_multiplier = 3/2, st_tp1_rr = 1,
      st_tp2_rr = 2, st_entry_1_percent = Some 30, st_entry_2_percent = Some 70\<rparr>"

definition example_candle :: candle where
  "example_candle =
     \<lparr>close = 150, ema_short = 148, ema_long = 145, rsi = 55, adx = 30, atr = 5/2,
      volume = Some 25000, volume_ma = Some 20000\<rparr>"

definition example_frame :: "candle list" where
  "example_frame = replicate 21 example_candle"

text \<open>The entry legs and the reason that \<^verbatim>\<open>check_long_entry\<close> stores for that example.\<close>

definition example_details :: details where
  "example_details =
     [''entry_1'' \<mapsto> Leg \<lparr>leg_price = 148, leg_position_size = 2, leg_stop_loss = 141.25,
                            leg_take_profit = 154.75, leg_risk_reward = 1\<rparr>,
      ''entry_2'' \<mapsto> Leg \<lparr>leg_price = 145, leg_position_size = 14 / 3, leg_stop_loss = 141.25,
                            leg_take_profit = 152.5, leg_risk_reward = 2\<rparr>,
      ''reason'' \<mapsto> Str ''All entry conditions met'']"


section \<open>Properties of the risk manager\<close>

subsection \<open>Order of the lifecycle actions\<close>

text \<open>
  Claim C1. For a long position, one call of \<^verbatim>\<open>update_position\<close> returns a single
  optional action, chosen in this order: \<^verbatim>\<open>stop_loss\<close> when the price is at or below the
  stop (the position is then returned unchanged); otherwise \<^verbatim>\<open>tp1\<close> when TP1 is armed
  (set, nonzero, with a positive percentage) and reached; otherwise \<^verbatim>\<open>tp2\<close> when TP2 is
  armed and reached; otherwise \<^verbatim>\<open>trailing_stop\<close> when some size remains and the price is
  at or below the updated trailing stop; otherwise no action. So a price that meets the
  stop-loss condition and a take-profit condition at once yields \<^verbatim>\<open>stop_loss\<close>.
\<close>

theorem update_position_priority:
  assumes "side p = ''long''"
  shows "snd (update_position self p cp a) =
     (if cp \<le> stop_loss p then Some ''stop_loss''
      else if (\<exists>t. tp1 p = Some t \<and> t \<noteq> 0 \<and> 0 < tp1_percent p \<and> t \<le> cp)
           then Some ''tp1''
      else if (\<exists>t. tp2 p = Some t \<and> t \<noteq> 0 \<and> 0 < tp2_percent p \<and> t \<le> cp)
           then Some ''tp2''
      else if 0 < remaining_size p \<and>
              cp \<le> calculate_trailing_stop self (entry_price p) cp a ''long'' (trailing_stop p)
           then Some ''trailing_stop''
      else None)
    \<and> (cp \<le> stop_loss p \<longrightarrow> update_position self p cp a = (p, Some ''stop_loss''))"
  using assms
  by (cases "tp1 p"; cases "tp2 p")
     (auto simp add: update_position_def update_position_tp1_def update_position_tp2_def
        update_position_trailing_def check_stop_loss_hit_def check_take_profit_hit_def Let_def)

text \<open>At the price 96 the position \<open>stopped_position\<close> has its stop (100), its TP1 (90)
  and its TP2 (95) all met; the call reports the stop-loss and changes nothing.\<close>

theorem update_position_priority_witness:
  "side stopped_position = ''long''
   \<and> (96::real) \<le> stop_loss stopped_position
   \<and> tp1 stopped_position = Some 90 \<and> 0 < tp1_percent stopped_position \<and> (90::real) \<le> 96
   \<and> tp2 stopped_position = Some 95 \<and> 0 < tp2_percent stopped_position \<and> (95::real) \<le> 96
   \<and> update_position example_risk_manager stopped_position 96 2
       = (stopped_position, Some ''stop_loss'')"
proof -
  have l: "side stopped_position = ''long''"
    by (simp add: stopped_position_def)
  have s: "(96::real) \<le> stop_loss stopped_position"
    by (simp add: stopped_position_def)
  from update_position_priority [OF l, of example_risk_manager 96 2] s
  have "update_position example_risk_manager stopped_position 96 2
       = (stopped_position, Some ''stop_loss'')" by blast
  with l s show ?thesis by (simp add: stopped_position_def)
qed

subsection \<open>Trailing stop\<close>

lemma py_max_eq: "py_max a b = max a b"
  by (simp add: py_max_def max_def)

lemma trailing_le_refl: "trailing_le a a"
  by (cases a) simp_all

lemma trailing_le_trans: "trailing_le a b \<Longrightarrow> trailing_le b c \<Longrightarrow> trailing_le a c"
  by (cases a; cases b; cases c) simp_all

lemma calculate_trailing_stop_long_ge:
  "trailing_le cur (Some (calculate_trailing_stop self e cp a ''long'' cur))"
  by (cases cur) (simp_all add: calculate_trailing_stop_def Let_def py_max_eq)

lemma calculate_trailing_stop_long_floor:
  "e \<le> calculate_trailing_stop self e cp a ''long'' None"
  by (simp add: calculate_trailing_stop_def Let_def py_max_eq)

lemma tp1_frame:
  "side (fst (update_position_tp1 cp st)) = side (fst st) \<and>
   entry_price (fst (update_position_tp1 cp st)) = entry_price (fst st) \<and>
   trailing_stop (fst (update_position_tp1 cp st)) = trailing_stop (fst st)"
  by (cases st) (simp add: update_position_tp1_def Let_def)

lemma tp2_frame:
  "side (fst (update_position_tp2 cp st)) = side (fst st) \<and>
   entry_price (fst (update_position_tp2 cp st)) = entry_price (fst st) \<and>
   trailing_stop (fst (update_position_tp2 cp st)) = trailing_stop (fst st)"
  by (cases st) (simp add: update_position_tp2_def Let_def)

lemma trailing_frame:
  "side (fst (update_position_trailing self cp a st)) = side (fst st) \<and>
   entry_price (fst (update_position_trailing self cp a st)) = entry_price (fst st)"
  by (cases st) (simp add: update_position_trailing_def Let_def)

lemma trailing_step:
  assumes "side (fst st) = ''long''"
  shows "trailing_le (trailing_stop (fst st))
           (trailing_stop (fst (update_position_trailing self cp a st)))"
  using assms calculate_trailing_stop_long_ge [of "trailing_stop (fst st)" self "entry_price (fst st)" cp a]
  by (cases st) (simp add: update_position_trailing_def Let_def trailing_le_refl)

lemma trailing_step_floor:
  assumes "side (fst st) = ''long''" and "trailing_floored (fst st)"
  shows "trailing_floored (fst (update_position_trailing self cp a st))"
proof (cases st)
  case (Pair p act)
  show ?thesis
  proof (cases "trailing_stop p")
    case None
    with Pair assms calculate_trailing_stop_long_floor [of "entry_price p" self cp a]
    show ?thesis by (simp add: update_position_trailing_def Let_def trailing_floored_def)
  next
    case (Some cur)
    with Pair assms have "entry_price p \<le> cur" by (simp add: trailing_floored_def)
    moreover have "cur \<le> calculate_trailing_stop self (entry_price p) cp a ''long'' (Some cur)"
      using calculate_trailing_stop_long_ge [of "Some cur" self "entry_price p" cp a] by simp
    ultimately show ?thesis using Pair Some assms
      by (simp add: update_position_trailing_def Let_def trailing_floored_def)
  qed
qed

lemma update_position_frame:
  "side (fst (update_position self p cp a)) = side p \<and>
   entry_price (fst (update_position self p cp a)) = entry_price p"
  by (simp add: update_position_def trailing_frame tp2_frame tp1_frame)

lemma update_position_trailing_le:
  assumes "side p = ''long''"
  shows "trailing_le (trailing_stop p) (trailing_stop (fst (update_position self p cp a)))"
proof (cases "check_stop_loss_hit cp (stop_loss p) (side p)")
  case True
  then show ?thesis by (simp add: update_position_def trailing_le_refl)
next
  case False
  let ?st = "update_position_tp2 cp (update_position_tp1 cp (p, None))"
  have "side (fst ?st) = ''long''" and "trailing_stop (fst ?st) = trailing_stop p"
    using assms by (simp_all add: tp1_frame tp2_frame)
  have eq: "fst (update_position self p cp a) = fst (update_position_trailing self cp a ?st)"
    using False by (simp add: update_position_def)
  have "trailing_le (trailing_stop (fst ?st)) (trailing_stop (fst (update_position_trailing self cp a ?st)))"
    using \<open>side (fst ?st) = ''long''\<close> by (rule trailing_step)
  then show ?thesis
    unfolding eq \<open>trailing_stop (fst ?st) = trailing_stop p\<close> .
qed

lemma update_position_floor:
  assumes "side p = ''long''" and "trailing_floored p"
  shows "trailing_floored (fst (update_position self p cp a))"
proof (cases "check_stop_loss_hit cp (stop_loss p) (side p)")
  case True
  with assms show ?thesis by (simp add: update_position_def)
next
  case False
  let ?st = "update_position_tp2 cp (update_position_tp1 cp (p, None))"
  have eq: "fst (update_position self p cp a) = fst (update_position_trailing self cp a ?st)"
    using False by (simp add: update_position_def)
  have "side (fst ?st) = ''long''"
    using assms by (simp add: tp1_frame tp2_frame)
  moreover have "trailing_floored (fst ?st)"
    using assms(2) by (simp add: trailing_floored_def tp1_frame tp2_frame split: option.splits)
  ultimately have "trailing_floored (fst (update_position_trailing self cp a ?st))"
    by (rule trailing_step_floor)
  then show ?thesis unfolding eq .
qed


text \<open>
  Claim C2. For a long position, over any sequence of \<^verbatim>\<open>update_position\<close> calls (any
  prices and ATR values, so increasing prices in particular) the stored trailing stop
  never decreases: once set it is never unset, and each stored level is at least the one
  before. A trailing stop that starts unset, or at or above the entry price, is at or
  above the entry price (breakeven) whenever it is set.
\<close>

theorem trailing_stop_never_decreases:
  assumes "side p = ''long''"
  shows "trailing_le (trailing_stop p) (trailing_stop (update_position_calls self p inputs))
       \<and> (trailing_floored p \<longrightarrow> trailing_floored (update_position_calls self p inputs))"
  using assms
proof (induction inputs arbitrary: p)
  case Nil
  then show ?case by (simp add: trailing_le_refl)
next
  case (Cons x rest)
  obtain cp a where x: "x = (cp, a)" by (cases x)
  let ?q = "fst (update_position self p cp a)"
  have q: "side ?q = ''long''"
    using Cons.prems by (simp add: update_position_frame)
  note ih = Cons.IH [OF q]
  have calls: "update_position_calls self p (x # rest) = update_position_calls self ?q rest"
    by (simp add: x)
  have le: "trailing_le (trailing_stop p) (trailing_stop ?q)"
    using Cons.prems by (rule update_position_trailing_le)
  have "trailing_le (trailing_stop ?q) (trailing_stop (update_position_calls self ?q rest))"
    using ih by (rule conjunct1)
  with le have 1: "trailing_le (trailing_stop p) (trailing_stop (update_position_calls self ?q rest))"
    by (rule trailing_le_trans)
  have 2: "trailing_floored (update_position_calls self ?q rest)" if "trailing_floored p"
  proof -
    from Cons.prems that have "trailing_floored ?q" by (rule update_position_floor)
    with ih show ?thesis by blast
  qed
  from 1 2 show ?case unfolding calls by blast
qed

text \<open>Three calls on the example position, the last with a lower price and a wider ATR:
  the levels stored are 103, 106 and again 106.\<close>

theorem trailing_stop_never_decreases_witness:
  "side example_position = ''long''
   \<and> trailing_floored example_position
   \<and> trailing_stop (update_position_calls example_risk_manager example_position
        [(105, 2), (108, 2), (107, 5)]) = Some 106
   \<and> trailing_le (trailing_stop example_position)
        (trailing_stop (update_position_calls example_risk_manager example_position
           [(105, 2), (108, 2), (107, 5)]))
   \<and> trailing_floored (update_position_calls example_risk_manager example_position
        [(105, 2), (108, 2), (107, 5)])"
proof -
  have l: "side example_position = ''long''" by (simp add: example_position_def)
  have f: "trailing_floored example_position"
    by (simp add: example_position_def trailing_floored_def)
  have v: "trailing_stop (update_position_calls example_risk_manager example_position
        [(105, 2), (108, 2), (107, 5)]) = Some 106"
    by (simp add: example_position_def example_risk_manager_def update_position_def
        update_position_tp1_def update_position_tp2_def update_position_trailing_def
        check_stop_loss_hit_def check_take_profit_hit_def calculate_trailing_stop_def
        py_max_def Let_def)
  from trailing_stop_never_decreases [OF l, of example_risk_manager "[(105, 2), (108, 2), (107, 5)]"] l f v
  show ?thesis by blast
qed

subsection \<open>Partial exits\<close>

text \<open>
  Claim C7, as amended. For a long position with \<open>remaining_size = position_size\<close> whose
  TP1 is armed (set, nonzero, with a positive percentage), a call with the price at or
  above TP1 and above the stop, in which TP2 does not fire as well (TP2 is unset, zero,
  has no positive percentage or lies above the price), leaves
  \<open>remaining_size = position_size - position_size * tp1_percent / 100\<close>, disarms TP1, moves
  the stop to the entry price and reports \<^verbatim>\<open>tp1\<close>.
\<close>

theorem update_position_tp1_only:
  assumes "side p = ''long''"
    and "tp1 p = Some t1" and "t1 \<noteq> 0" and "0 < tp1_percent p"
    and "remaining_size p = position_size p"
    and "t1 \<le> cp" and "stop_loss p < cp"
    and "\<not> (\<exists>t2. tp2 p = Some t2 \<and> t2 \<noteq> 0 \<and> 0 < tp2_percent p \<and> t2 \<le> cp)"
  shows "snd (update_position self p cp a) = Some ''tp1''
       \<and> remaining_size (fst (update_position self p cp a)) =
           position_size p - position_size p * tp1_percent p / 100
       \<and> tp1 (fst (update_position self p cp a)) = None
       \<and> tp1_percent (fst (update_position self p cp a)) = 0
       \<and> stop_loss (fst (update_position self p cp a)) = entry_price p"
  using assms
  by (cases "tp2 p")
     (auto simp add: update_position_def update_position_tp1_def update_position_tp2_def
        update_position_trailing_def check_stop_loss_hit_def check_take_profit_hit_def Let_def)

text \<open>The example position at the price 115: TP1 (110) is reached and TP2 (120) is not;
  7 of the 10 units remain.\<close>

theorem update_position_tp1_only_witness:
  "update_position example_risk_manager example_position 115 2 =
     (example_position\<lparr>remaining_size := 7, tp1 := None, tp1_percent := 0,
        stop_loss := 100, trailing_stop := Some 113\<rparr>,
      Some ''tp1'')"
proof -
  have h: "side example_position = ''long''" "tp1 example_position = Some 110"
    "(110::real) \<noteq> 0" "0 < tp1_percent example_position"
    "remaining_size example_position = position_size example_position"
    "(110::real) \<le> 115" "stop_loss example_position < 115"
    "\<not> (\<exists>t2. tp2 example_position = Some t2 \<and> t2 \<noteq> 0
            \<and> 0 < tp2_percent example_position \<and> t2 \<le> 115)"
    by (simp_all add: example_position_def)
  have e: "update_position example_risk_manager example_position 115 2 =
     (example_position\<lparr>remaining_size := 7, tp1 := None, tp1_percent := 0,
        stop_loss := 100, trailing_stop := Some 113\<rparr>,
      Some ''tp1'')"
    by (simp add: example_position_def example_risk_manager_def update_position_def
        update_position_tp1_def update_position_tp2_def update_position_trailing_def
        check_stop_loss_hit_def check_take_profit_hit_def calculate_trailing_stop_def
        py_max_def Let_def)
  from update_position_tp1_only [OF h, of example_risk_manager 2] e
  show ?thesis by simp
qed

text \<open>The claim as first stated fails on two inputs. At the price 125 the example
  position has TP1 armed and reached with the stop below the price, yet 3 units remain
  and not 7, since TP2 fires in the same call. And \<open>zero_target_position\<close> has a TP1 that
  is set (to \<^verbatim>\<open>0.0\<close>) with a positive percentage and is reached at the price 5, yet the
  call does not report \<^verbatim>\<open>tp1\<close> and leaves TP1 as it is, since \<^verbatim>\<open>0.0\<close> is false in the
  test \<^verbatim>\<open>if position["tp1"] and ...\<close>.\<close>

theorem update_position_tp1_counterexample:
  "tp1 example_position = Some 110 \<and> 0 < tp1_percent example_position
   \<and> remaining_size example_position = position_size example_position
   \<and> (110::real) \<le> 125 \<and> stop_loss example_position < 125
   \<and> remaining_size (fst (update_position example_risk_manager example_position 125 2))
       \<noteq> position_size example_position
           - position_size example_position * tp1_percent example_position / 100
   \<and> tp1 zero_target_position = Some 0 \<and> 0 < tp1_percent zero_target_position
   \<and> remaining_size zero_target_position = position_size zero_target_position
   \<and> (0::real) \<le> 5 \<and> stop_loss zero_target_position < 5
   \<and> snd (update_position example_risk_manager zero_target_position 5 2) \<noteq> Some ''tp1''
   \<and> tp1 (fst (update_position example_risk_manager zero_target_position 5 2)) \<noteq> None"
  by (simp add: example_position_def zero_target_position_def example_risk_manager_def
        update_position_def update_position_tp1_def update_position_tp2_def
        update_position_trailing_def check_stop_loss_hit_def check_take_profit_hit_def
        calculate_trailing_stop_def py_max_def Let_def)

text \<open>
  Claim C10. For a long position with TP1 and TP2 both armed (set, nonzero, with a
  positive percentage), one call with the price at or above both levels and above the
  stop takes both portions off \<open>remaining_size\<close>, disarms both targets, moves the stop to
  the entry price, and reports the single action \<^verbatim>\<open>tp1\<close>.
\<close>

theorem update_position_both_targets:
  assumes "side p = ''long''"
    and "tp1 p = Some t1" and "t1 \<noteq> 0" and "0 < tp1_percent p"
    and "tp2 p = Some t2" and "t2 \<noteq> 0" and "0 < tp2_percent p"
    and "t1 \<le> cp" and "t2 \<le> cp" and "stop_loss p < cp"
  shows "snd (update_position self p cp a) = Some ''tp1''
       \<and> remaining_size (fst (update_position self p cp a)) =
           remaining_size p - position_size p * (tp1_percent p / 100)
                            - position_size p * (tp2_percent p / 100)
       \<and> tp1 (fst (update_position self p cp a)) = None
       \<and> tp1_percent (fst (update_position self p cp a)) = 0
       \<and> tp2 (fst (update_position self p cp a)) = None
       \<and> tp2_percent (fst (update_position self p cp a)) = 0
       \<and> stop_loss (fst (update_position self p cp a)) = entry_price p"
  using assms
  by (simp add: update_position_def update_position_tp1_def update_position_tp2_def
        update_position_trailing_def check_stop_loss_hit_def check_take_profit_hit_def Let_def)

text \<open>The example position at the price 125: both targets are reached, 3 of the 10
  units remain, and the action is \<^verbatim>\<open>tp1\<close>.\<close>

theorem update_position_both_targets_witness:
  "update_position example_risk_manager example_position 125 2 =
     (example_position\<lparr>remaining_size := 3, tp1 := None, tp1_percent := 0,
        tp2 := None, tp2_percent := 0, stop_loss := 100, trailing_stop := Some 123\<rparr>,
      Some ''tp1'')"
proof -
  have h: "side example_position = ''long''" "tp1 example_position = Some 110"
    "(110::real) \<noteq> 0" "0 < tp1_percent example_position"
    "tp2 example_position = Some 120" "(120::real) \<noteq> 0"
    "0 < tp2_percent example_position" "(110::real) \<le> 125" "(120::real) \<le> 125"
    "stop_loss example_position < 125"
    by (simp_all add: example_position_def)
  have e: "update_position example_risk_manager example_position 125 2 =
     (example_position\<lparr>remaining_size := 3, tp1 := None, tp1_percent := 0,
        tp2 := None, tp2_percent := 0, stop_loss := 100, trailing_stop := Some 123\<rparr>,
      Some ''tp1'')"
    by (simp add: example_position_def example_risk_manager_def update_position_def
        update_position_tp1_def update_position_tp2_def update_position_trailing_def
        check_stop_loss_hit_def check_take_profit_hit_def calculate_trailing_stop_def
        py_max_def Let_def)
  from update_position_both_targets [OF h, of example_risk_manager 2] e
  show ?thesis by simp
qed

subsection \<open>Profit and loss\<close>

lemma calculate_pnl_without_risk_amount:
  "risk_amount p = None \<Longrightarrow> calculate_pnl p cp = Inl (KeyError ''risk_amount'')"
  by (simp add: calculate_pnl_def Let_def)

lemma calculate_pnl_with_risk_amount:
  assumes "side p = ''long''" and "risk_amount p = Some ra"
  shows "calculate_pnl p cp =
     Inr \<lparr>pnl = (cp - entry_price p) * remaining_size p,
          pnl_percent = (if ra > 0 then (cp - entry_price p) * remaining_size p / ra * 100 else 0),
          rr_achieved = (if \<bar>entry_price p - stop_loss p\<bar> > 0
                         then \<bar>cp - entry_price p\<bar> / \<bar>entry_price p - stop_loss p\<bar> else 0),
          pnl_remaining_size = remaining_size p\<rparr>"
  using assms by (simp add: calculate_pnl_def Let_def)

lemma create_position_risk_amount:
  "create_position self e a eq sd ms mua = Inr p \<Longrightarrow> risk_amount p = None"
  by (auto simp add: create_position_def Let_def split: sum.splits)

text \<open>
  Claim C4. The claim asks \<^verbatim>\<open>calculate_pnl\<close> to return the profit, its percentage of the
  risked notional and the achieved risk:reward for every long position. The code reads
  the key \<^verbatim>\<open>risk_amount\<close>, which \<^verbatim>\<open>create_position\<close> never stores: on every position that
  \<^verbatim>\<open>create_position\<close> builds, at every price, the call raises \<^verbatim>\<open>KeyError\<close> and returns
  nothing.
\<close>

theorem calculate_pnl_created_position:
  assumes "create_position self e a eq sd ms mua = Inr p"
  shows "calculate_pnl p cp = Inl (KeyError ''risk_amount'')"
  using assms by (blast intro: calculate_pnl_without_risk_amount create_position_risk_amount)

text \<open>The position of the module's own example, closed at its entry price.\<close>

theorem calculate_pnl_created_position_witness:
  "create_position example_risk_manager 50000 500 1000 ''long'' (1 / 10000) None
      = Inr created_position
   \<and> calculate_pnl created_position 50000 = Inl (KeyError ''risk_amount'')"
proof -
  have c: "create_position example_risk_manager 50000 500 1000 ''long'' (1 / 10000) None
      = Inr created_position"
    by (simp add: create_position_def calculate_stop_loss_def calculate_position_size_def
        calculate_take_profits_def example_risk_manager_def created_position_def Let_def)
  from calculate_pnl_created_position [OF c, of 50000] c show ?thesis by simp
qed


section \<open>Properties of the signal evaluator\<close>

lemma last_example_frame: "last example_frame = example_candle"
  by (simp add: example_frame_def)

subsection \<open>Warm-up\<close>

text \<open>
  Claim C5. On a frame with fewer rows than the largest of the long-EMA, RSI, ATR and
  volume-average periods, \<^verbatim>\<open>check_long_entry\<close> returns without raising: the signal is
  false, the details hold the reason \<^verbatim>\<open>Insufficient data\<close> and nothing else (so no entry
  legs), and nothing is logged. The result is this same value whatever the rows hold, so
  no indicator value enters it.
\<close>

theorem check_long_entry_insufficient_data:
  assumes "int (length df) <
             max (max (max (st_ema_long self) (st_rsi_length self)) (st_atr_period self))
                 (st_volume_ma_period self)"
  shows "check_long_entry self df = Inr (False, [''reason'' \<mapsto> Str ''Insufficient data''], [])"
  using assms by (simp add: check_long_entry_def)

text \<open>The first 20 rows of the example frame, against a long-EMA period of 21.\<close>

theorem check_long_entry_insufficient_data_witness:
  "check_long_entry example_strategy (butlast example_frame)
       = Inr (False, [''reason'' \<mapsto> Str ''Insufficient data''], [])
   \<and> length (butlast example_frame) = 20
   \<and> detail_of (check_long_entry example_strategy (butlast example_frame)) ''entry_1'' = None
   \<and> detail_of (check_long_entry example_strategy (butlast example_frame)) ''entry_2'' = None"
proof -
  have h: "int (length (butlast example_frame)) <
       max (max (max (st_ema_long example_strategy) (st_rsi_length example_strategy)) (st_atr_period example_strategy))
                 (st_volume_ma_period example_strategy)"
    by (simp add: example_strategy_def example_frame_def)
  from check_long_entry_insufficient_data [OF h] show ?thesis
    by (simp add: detail_of_def example_frame_def)
qed

subsection \<open>The entry plan\<close>

text \<open>
  Claim C3. On a frame at least as long as the warm-up whose latest row has
  \<open>close > ema_short > ema_long\<close>, \<open>rsi_min \<le> rsi \<le> rsi_max\<close>, \<open>adx \<ge> adx_threshold\<close> and
  \<open>volume \<ge> volume_ma\<close>, with a positive allocation (and a close other than zero),
  \<^verbatim>\<open>check_long_entry\<close> triggers and stores two legs: Entry-1 priced at \<open>ema_short\<close> and
  Entry-2 at \<open>ema_long\<close>, both with the stop \<open>ema_long - atr * sl_atr_multiplier\<close>, of the
  sizes \<open>(max_usdt_per_trade / close) * entry_1_percent\<close> and
  \<open>(max_usdt_per_trade / close) * entry_2_percent\<close>, and with the take-profits
  \<open>price + (price - stop) * tp1_rr\<close> and \<open>price + (price - stop) * tp2_rr\<close>. Here
  \<open>entry_1_percent\<close> and \<open>entry_2_percent\<close> are the fractions of line 248 and 249 of the
  source: the configured percentages (30 and 70 when not configured) divided by 100.
\<close>

theorem check_long_entry_plan:
  assumes "max (max (max (st_ema_long self) (st_rsi_length self)) (st_atr_period self))
                 (st_volume_ma_period self) \<le> int (length df)"
    and "df \<noteq> []"
    and "ema_short (last df) < close (last df)" and "ema_long (last df) < ema_short (last df)"
    and "st_rsi_min self \<le> rsi (last df)" and "rsi (last df) \<le> st_rsi_max self"
    and "st_adx_threshold self \<le> adx (last df)"
    and "volume (last df) = Some v" and "volume_ma (last df) = Some vm" and "vm \<le> v"
    and "0 < st_max_usdt_per_trade self" and "close (last df) \<noteq> 0"
  shows "signal_of (check_long_entry self df) = Some True
     \<and> detail_of (check_long_entry self df) ''entry_1'' = Some (Leg
          \<lparr>leg_price = ema_short (last df),
           leg_position_size = (st_max_usdt_per_trade self / close (last df))
                                 * (get_or (st_entry_1_percent self) 30 / 100),
           leg_stop_loss = ema_long (last df) - atr (last df) * st_sl_atr_multiplier self,
           leg_take_profit = ema_short (last df)
              + (ema_short (last df)
                   - (ema_long (last df) - atr (last df) * st_sl_atr_multiplier self))
                * st_tp1_rr self,
           leg_risk_reward = st_tp1_rr self\<rparr>)
     \<and> detail_of (check_long_entry self df) ''entry_2'' = Some (Leg
          \<lparr>leg_price = ema_long (last df),
           leg_position_size = (st_max_usdt_per_trade self / close (last df))
                                 * (get_or (st_entry_2_percent self) 70 / 100),
           leg_stop_loss = ema_long (last df) - atr (last df) * st_sl_atr_multiplier self,
           leg_take_profit = ema_long (last df)
              + (ema_long (last df)
                   - (ema_long (last df) - atr (last df) * st_sl_atr_multiplier self))
                * st_tp2_rr self,
           leg_risk_reward = st_tp2_rr self\<rparr>)"
proof -
  have 1: "\<not> int (length df) < max (max (max (st_ema_long self) (st_rsi_length self)) (st_atr_period self))
               (st_volume_ma_period self)"
    using assms(1) by linarith
  have 2: "\<not> st_max_usdt_per_trade self \<le> 0" using assms(11) by simp
  show ?thesis
    using assms(2-10) assms(12)
    by (simp add: check_long_entry_def 1 2 Let_def signal_of_def detail_of_def)
qed

text \<open>The worked example: the stop is 141.25, Entry-1 is priced at 148 with the size
  \<open>1000 / 150 * 0.3 = 2\<close>, and Entry-2 at 145 with the size \<open>1000 / 150 * 0.7 = 14 / 3\<close>.\<close>

theorem check_long_entry_plan_witness:
  "signal_of (check_long_entry example_strategy example_frame) = Some True
   \<and> detail_of (check_long_entry example_strategy example_frame) ''entry_1'' =
       Some (Leg \<lparr>leg_price = 148, leg_position_size = 2, leg_stop_loss = 141.25,
                  leg_take_profit = 154.75, leg_risk_reward = 1\<rparr>)
   \<and> detail_of (check_long_entry example_strategy example_frame) ''entry_2'' =
       Some (Leg \<lparr>leg_price = 145, leg_position_size = 14 / 3, leg_stop_loss = 141.25,
                  leg_take_profit = 152.5, leg_risk_reward = 2\<rparr>)"
proof -
  have "max (max (max (st_ema_long example_strategy) (st_rsi_length example_strategy))
            (st_atr_period example_strategy))
            (st_volume_ma_period example_strategy) \<le> int (length example_frame)"
    by (simp add: example_strategy_def example_frame_def)
  moreover have "example_frame \<noteq> []" by (simp add: example_frame_def)
  ultimately have "signal_of (check_long_entry example_strategy example_frame) = Some True
     \<and> detail_of (check_long_entry example_strategy example_frame) ''entry_1'' = Some (Leg
          \<lparr>leg_price = ema_short (last example_frame),
           leg_position_size = (st_max_usdt_per_trade example_strategy / close (last example_frame))
                                 * (get_or (st_entry_1_percent example_strategy) 30 / 100),
           leg_stop_loss = ema_long (last example_frame)
              - atr (last example_frame) * st_sl_atr_multiplier example_strategy,
           leg_take_profit = ema_short (last example_frame)
              + (ema_short (last example_frame)
                   - (ema_long (last example_frame)
                        - atr (last example_frame) * st_sl_atr_multiplier example_strategy))
                * st_tp1_rr example_strategy,
           leg_risk_reward = st_tp1_rr example_strategy\<rparr>)
     \<and> detail_of (check_long_entry example_strategy example_frame) ''entry_2'' = Some (Leg
          \<lparr>leg_price = ema_long (last example_frame),
           leg_position_size = (st_max_usdt_per_trade example_strategy / close (last example_frame))
                                 * (get_or (st_entry_2_percent example_strategy) 70 / 100),
           leg_stop_loss = ema_long (last example_frame)
              - atr (last example_frame) * st_sl_atr_multiplier example_strategy,
           leg_take_profit = ema_long (last example_frame)
              + (ema_long (last example_frame)
                   - (ema_long (last example_frame)
                        - atr (last example_frame) * st_sl_atr_multiplier example_strategy))
                * st_tp2_rr example_strategy,
           leg_risk_reward = st_tp2_rr example_strategy\<rparr>)"
    by (rule check_long_entry_plan [where v = 25000 and vm = 20000])
       (simp_all add: last_example_frame example_candle_def example_strategy_def)
  then show ?thesis
    by (simp add: last_example_frame example_candle_def) (simp add: example_strategy_def)
qed

text \<open>
  Claim C6. When the four entry conditions hold on the latest row of a frame at least as
  long as the warm-up and the allocation is zero or negative, \<^verbatim>\<open>check_long_entry\<close>
  returns without raising: the signal is false, the reason is
  \<^verbatim>\<open>MAX_USDT_PER_TRADE must be > 0 in .env file\<close>, and the details hold no entry leg.
\<close>

theorem check_long_entry_rejects_bad_allocation:
  assumes "max (max (max (st_ema_long self) (st_rsi_length self)) (st_atr_period self))
                 (st_volume_ma_period self) \<le> int (length df)"
    and "df \<noteq> []"
    and "ema_short (last df) < close (last df)" and "ema_long (last df) < ema_short (last df)"
    and "st_rsi_min self \<le> rsi (last df)" and "rsi (last df) \<le> st_rsi_max self"
    and "st_adx_threshold self \<le> adx (last df)"
    and "volume (last df) = Some v" and "volume_ma (last df) = Some vm" and "vm \<le> v"
    and "st_max_usdt_per_trade self \<le> 0"
  shows "signal_of (check_long_entry self df) = Some False
       \<and> detail_of (check_long_entry self df) ''reason''
            = Some (Str ''MAX_USDT_PER_TRADE must be > 0 in .env file'')
       \<and> detail_of (check_long_entry self df) ''entry_1'' = None
       \<and> detail_of (check_long_entry self df) ''entry_2'' = None"
proof -
  have 1: "\<not> int (length df) < max (max (max (st_ema_long self) (st_rsi_length self)) (st_atr_period self))
               (st_volume_ma_period self)"
    using assms(1) by linarith
  show ?thesis
    using assms(2-) by (simp add: check_long_entry_def 1 Let_def signal_of_def detail_of_def)
qed

text \<open>The worked example with the allocation set to zero.\<close>

theorem check_long_entry_rejects_bad_allocation_witness:
  "signal_of (check_long_entry (example_strategy\<lparr>st_max_usdt_per_trade := 0\<rparr>) example_frame)
     = Some False
   \<and> detail_of (check_long_entry (example_strategy\<lparr>st_max_usdt_per_trade := 0\<rparr>) example_frame)
       ''reason'' = Some (Str ''MAX_USDT_PER_TRADE must be > 0 in .env file'')
   \<and> detail_of (check_long_entry (example_strategy\<lparr>st_max_usdt_per_trade := 0\<rparr>) example_frame)
       ''entry_1'' = None
   \<and> detail_of (check_long_entry (example_strategy\<lparr>st_max_usdt_per_trade := 0\<rparr>) example_frame)
       ''entry_2'' = None"
proof (rule check_long_entry_rejects_bad_allocation [where v = 25000 and vm = 20000])
  show "max (max (max (st_ema_long (example_strategy\<lparr>st_max_usdt_per_trade := 0\<rparr>))
                      (st_rsi_length (example_strategy\<lparr>st_max_usdt_per_trade := 0\<rparr>)))
                 (st_atr_period (example_strategy\<lparr>st_max_usdt_per_trade := 0\<rparr>)))
            (st_volume_ma_period (example_strategy\<lparr>st_max_usdt_per_trade := 0\<rparr>))
          \<le> int (length example_frame)"
    by (simp add: example_strategy_def example_frame_def)
  show "example_frame \<noteq> []" by (simp add: example_frame_def)
qed (simp_all add: last_example_frame example_candle_def example_strategy_def)

subsection \<open>Live-price refinement\<close>

text \<open>
  Claim C8. \<^verbatim>\<open>recalculate_with_live_price\<close> returns on every non-empty frame whose
  latest close is not zero, and whenever it returns, the details it returns hold under
  \<^verbatim>\<open>entry_1\<close> and \<^verbatim>\<open>entry_2\<close> what they held before; indeed every key other than the
  annotations \<^verbatim>\<open>warning\<close>, \<^verbatim>\<open>entry_status\<close>, \<^verbatim>\<open>live_price\<close>, \<^verbatim>\<open>last_candle_price\<close> and
  \<^verbatim>\<open>price_change_pct\<close> is left as it was.
\<close>

theorem recalculate_with_live_price_frame:
  "(df \<noteq> [] \<and> close (last df) \<noteq> 0 \<longrightarrow>
      (\<exists>d. recalculate_with_live_price self df details live_price = Inr d))
   \<and> (\<forall>d. recalculate_with_live_price self df details live_price = Inr d \<longrightarrow>
         d ''entry_1'' = details ''entry_1'' \<and> d ''entry_2'' = details ''entry_2''
         \<and> (\<forall>k. k \<notin> annotation_keys \<longrightarrow> d k = details k))"
  by (auto simp add: recalculate_with_live_price_def Let_def annotation_keys_def
        split: if_splits)

text \<open>The details of the worked example, refined with the live price 160.\<close>

theorem recalculate_with_live_price_frame_witness:
  "returned_key (recalculate_with_live_price example_strategy example_frame example_details 160)
      ''entry_1'' = example_details ''entry_1''
   \<and> returned_key (recalculate_with_live_price example_strategy example_frame example_details 160)
      ''entry_2'' = example_details ''entry_2''
   \<and> returned_key (recalculate_with_live_price example_strategy example_frame example_details 160)
      ''reason'' = example_details ''reason''
   \<and> returned_key (recalculate_with_live_price example_strategy example_frame example_details 160)
      ''live_price'' = Some (Num 160)"
proof -
  have h: "example_frame \<noteq> [] \<and> close (last example_frame) \<noteq> 0"
    by (simp add: last_example_frame example_candle_def) (simp add: example_frame_def)
  have n: "''reason'' \<notin> annotation_keys" by (simp add: annotation_keys_def)
  from recalculate_with_live_price_frame [of example_frame example_strategy example_details 160] h
  obtain d where d: "recalculate_with_live_price example_strategy example_frame example_details 160 = Inr d"
    by blast
  with recalculate_with_live_price_frame [of example_frame example_strategy example_details 160] n
  have "d ''entry_1'' = example_details ''entry_1''" "d ''entry_2'' = example_details ''entry_2''"
    "d ''reason'' = example_details ''reason''"
    by blast+
  moreover have "d ''live_price'' = Some (Num 160)"
    using d h by (simp add: recalculate_with_live_price_def Let_def split: if_splits) auto
  ultimately show ?thesis by (simp add: d returned_key_def)
qed

text \<open>
  Claim C9, as amended. On a non-empty frame whose latest close is not zero, the entry
  status is the good zone when the live price is strictly below the short EMA, the
  marginal zone when it is at or above the short EMA and strictly below 1.02 times the
  short EMA, and the chase zone otherwise. The warning is written exactly when the
  absolute value of \<open>(live_price - close) / close * 100\<close> exceeds 5; otherwise the key
  \<^verbatim>\<open>warning\<close> is left as it was.
\<close>

theorem recalculate_with_live_price_annotations:
  assumes "df \<noteq> []" and "close (last df) \<noteq> 0"
  shows "returned_key (recalculate_with_live_price self df details live_price) ''entry_status'' =
           Some (Msg (if live_price < ema_short (last df) then In_entry_zone
                      else if live_price < ema_short (last df) * (102 / 100) then Near_entry_zone
                      else Above_entry_zone))
       \<and> returned_key (recalculate_with_live_price self df details live_price) ''warning'' =
           (if \<bar>(live_price - close (last df)) / close (last df) * 100\<bar> > 5
            then Some (Msg (Price_moved_warning
                              ((live_price - close (last df)) / close (last df) * 100)))
            else details ''warning'')"
  using assms
  by (simp add: recalculate_with_live_price_def Let_def returned_key_def)

text \<open>The worked example at the live prices 147 (good zone, no warning), 150 (marginal
  zone) and 160 (chase zone, with a warning for the move of 20/3 percent).\<close>

theorem recalculate_with_live_price_annotations_witness:
  "returned_key (recalculate_with_live_price example_strategy example_frame example_details 147)
      ''entry_status'' = Some (Msg In_entry_zone)
   \<and> returned_key (recalculate_with_live_price example_strategy example_frame example_details 147)
      ''warning'' = None
   \<and> returned_key (recalculate_with_live_price example_strategy example_frame example_details 150)
      ''entry_status'' = Some (Msg Near_entry_zone)
   \<and> returned_key (recalculate_with_live_price example_strategy example_frame example_details 160)
      ''entry_status'' = Some (Msg Above_entry_zone)
   \<and> returned_key (recalculate_with_live_price example_strategy example_frame example_details 160)
      ''warning'' = Some (Msg (Price_moved_warning (20 / 3)))"
proof -
  have h: "example_frame \<noteq> []" "close (last example_frame) \<noteq> 0"
    by (simp add: example_frame_def, simp add: last_example_frame example_candle_def)
  show ?thesis
    using recalculate_with_live_price_annotations [OF h, of example_strategy example_details 147]
      recalculate_with_live_price_annotations [OF h, of example_strategy example_details 150]
      recalculate_with_live_price_annotations [OF h, of example_strategy example_details 160]
    by (simp add: last_example_frame example_candle_def example_details_def)
qed

text \<open>The claim as first stated puts a live price equal to the short EMA in the good
  zone. In the worked example the live price 148 equals the short EMA and the status is
  the marginal zone.\<close>

theorem recalculate_with_live_price_counterexample:
  "(148::real) \<le> ema_short (last example_frame)
   \<and> returned_key (recalculate_with_live_price example_strategy example_frame example_details 148)
      ''entry_status'' = Some (Msg Near_entry_zone)
   \<and> returned_key (recalculate_with_live_price example_strategy example_frame example_details 148)
      ''entry_status'' \<noteq> Some (Msg In_entry_zone)"
  by (simp add: recalculate_with_live_price_def Let_def returned_key_def last_example_frame
        example_candle_def)
     (simp add: example_frame_def)

end
